theory Spec2Isabelle
  imports Complex_Main "HOL-Library.AList"
begin

section \<open>The tftypes collaborator\<close>

text \<open>
  The package \<^verbatim>\<open>asgotypes\<close> converts between \<^verbatim>\<open>tftypes.Value\<close> and plain Go values.
  The library \<^verbatim>\<open>tfprotov5/tftypes\<close> is not part of the repository; the part of its
  interface that \<^verbatim>\<open>primitive.go\<close> calls is written out here.

  A \<^verbatim>\<open>tftypes.Type\<close> is one of the primitives \<^verbatim>\<open>String\<close>, \<^verbatim>\<open>Number\<close>, \<^verbatim>\<open>Bool\<close>,
  \<^verbatim>\<open>DynamicPseudoType\<close>, or one of the structs \<^verbatim>\<open>Object{AttributeTypes}\<close>,
  \<^verbatim>\<open>Tuple{ElementTypes}\<close>, \<^verbatim>\<open>List{ElementType}\<close>, \<^verbatim>\<open>Set{ElementType}\<close>,
  \<^verbatim>\<open>Map{AttributeType}\<close>. The interface has an unexported method, so there is no other
  implementation. A Go map is an association list with distinct keys; the order of the list
  stands for the order in which one run of the program iterates over the map. The nil
  interface value of type \<^verbatim>\<open>tftypes.Type\<close> is \<open>None :: ttype option\<close>.
\<close>

datatype ttype =
    String
  | Number
  | Bool
  | DynamicPseudoType
  | Object (AttributeTypes: "(string \<times> ttype) list")
  | Tuple (ElementTypes: "ttype list")
  | List (ElementType: ttype)
  | Set (ElementType: ttype)
  | Map (AttributeType: ttype)

text \<open>
  The Go types of the values that the conversion handles: \<^verbatim>\<open>string\<close>, \<^verbatim>\<open>*big.Float\<close>,
  \<^verbatim>\<open>bool\<close>, \<^verbatim>\<open>int\<close> (standing for every other scalar type), \<^verbatim>\<open>interface{}\<close>,
  \<^verbatim>\<open>[]T\<close> and \<^verbatim>\<open>map[K]T\<close>. This is what \<^verbatim>\<open>reflect.TypeOf\<close> returns; the nil
  \<^verbatim>\<open>reflect.Type\<close> is \<open>None\<close>.
\<close>

datatype gotype =
    GoString
  | GoBigFloat
  | GoBool
  | GoInt
  | GoInterface
  | GoSlice gotype
  | GoMap gotype gotype

text \<open>The values of \<^verbatim>\<open>reflect.Kind\<close> that occur.\<close>

datatype kind = Invalid | KBool | KInt | KInterface | KMap | KPtr | KSlice | KString

fun kind_of :: "gotype \<Rightarrow> kind" where
  "kind_of GoString = KString"
| "kind_of GoBigFloat = KPtr"
| "kind_of GoBool = KBool"
| "kind_of GoInt = KInt"
| "kind_of GoInterface = KInterface"
| "kind_of (GoSlice t) = KSlice"
| "kind_of (GoMap k t) = KMap"

text \<open>
  A Go value held in an \<^verbatim>\<open>interface{}\<close>: the nil interface, a string, a \<^verbatim>\<open>*big.Float\<close>
  (a rational; the code copies it and never computes with it), a bool, an int, a slice
  with its element type, a map with string keys and its element type, or a map with int
  keys (standing for every map whose key type is not \<^verbatim>\<open>string\<close>). A nil slice and an
  empty slice are both \<open>DSlice t []\<close>: \<^verbatim>\<open>len\<close>, \<^verbatim>\<open>range\<close>, \<^verbatim>\<open>reflect.Value.Kind\<close> and
  the comparison of the enclosing interface with nil do not tell them apart.
\<close>

datatype dyn =
    GoNil
  | DString string
  | DNumber rat
  | DBool bool
  | DInt int
  | DSlice gotype "dyn list"
  | DMap gotype "(string \<times> dyn) list"
  | DIntMap gotype "(int \<times> dyn) list"

text \<open>
  The field \<^verbatim>\<open>value interface{}\<close> of a \<^verbatim>\<open>tftypes.Value\<close> holds the sentinel
  \<^verbatim>\<open>tftypes.UnknownValue\<close>, a Go value stored as it is (nil for a null value), a
  \<^verbatim>\<open>[]tftypes.Value\<close> or a \<^verbatim>\<open>map[string]tftypes.Value\<close>.
\<close>

datatype 'v held = Unknown | Raw dyn | Values "'v list" | Attrs "(string \<times> 'v) list"

datatype tfvalue = TfValue (typ_of: ttype) (value_of: "tfvalue held")

text \<open>
  A value always carries a \<^verbatim>\<open>Type\<close> here: the zero \<^verbatim>\<open>tftypes.Value{}\<close>, which the code returns
  only next to an error, is not a value of the model.

  \<^verbatim>\<open>tftypes.NewValue(t, val)\<close> stores \<^verbatim>\<open>val\<close> under \<^verbatim>\<open>t\<close>. The encoder wraps the Go value it
  is given under a scalar type as it is and leaves the comparison of the Go type of
  \<^verbatim>\<open>val\<close> with \<^verbatim>\<open>t\<close> to whoever consumes the value, so \<open>NewValue\<close> compares nothing.
  \<^verbatim>\<open>IsKnown\<close> compares the held value with the sentinel, \<^verbatim>\<open>IsNull\<close> with nil.
\<close>

definition NewValue :: "ttype \<Rightarrow> tfvalue held \<Rightarrow> tfvalue" where
  "NewValue t v = TfValue t v"

definition IsKnown :: "tfvalue \<Rightarrow> bool" where
  "IsKnown v = (value_of v \<noteq> Unknown)"

definition IsNull :: "tfvalue \<Rightarrow> bool" where
  "IsNull v = (value_of v = Raw GoNil)"

subsection \<open>Errors and panics\<close>

text \<open>
  One constructor for each error the code builds, with the arguments of its format string:
  \<^item> \<open>CannotDecodeUnknown\<close>: \<^verbatim>\<open>errors.New("cannot decode unknown values to Go types")\<close>;
  \<^item> \<open>UnknownType\<close>: \<^verbatim>\<open>errors.New("unknown type")\<close>;
  \<^item> \<open>UnableToDetermineType i\<close>: \<^verbatim>\<open>fmt.Errorf("unable to determine type %v", i)\<close>;
  \<^item> \<open>CannotMarshalKind k\<close>: \<^verbatim>\<open>fmt.Errorf("cannot marshal kind of %s", k.String())\<close>;
  \<^item> \<open>CantUnmarshal t g\<close>: the error of \<^verbatim>\<open>tftypes.Value.As\<close> when the held Go value is not
    of the Go type \<open>g\<close> of the target.
  A panic of the Go runtime or of package \<^verbatim>\<open>reflect\<close> is a failure of its own: no
  \<^verbatim>\<open>if err != nil\<close> sees it, and it unwinds every caller.
\<close>

datatype target = TargetString | TargetBigFloat | TargetBool | TargetValueMap | TargetValueSlice

datatype err =
    CannotDecodeUnknown
  | UnknownType
  | UnableToDetermineType dyn
  | CannotMarshalKind kind
  | CantUnmarshal ttype target

datatype panic =
    NilPointerDereference
  | IndexOutOfRange
  | ReflectNilType
  | ReflectZeroValue
  | ReflectNotAssignable

datatype failure = Error err | Panic panic

subsection \<open>\<^verbatim>\<open>tftypes.Value.As\<close> on a known value that is not null\<close>

text \<open>
  \<^verbatim>\<open>value.As(&str)\<close>, \<^verbatim>\<open>value.As(&num)\<close>, \<^verbatim>\<open>value.As(&b)\<close>, \<^verbatim>\<open>value.As(&msv)\<close> and
  \<^verbatim>\<open>value.As(&vals)\<close>: the held Go value is asserted to be of the type of the target, and an
  error is returned when it is not. The decoder calls them after \<^verbatim>\<open>IsKnown\<close> and \<^verbatim>\<open>IsNull\<close>.
\<close>

definition As_string :: "tfvalue \<Rightarrow> err + string" where
  "As_string v = (case value_of v of Raw (DString s) \<Rightarrow> Inr s | _ \<Rightarrow> Inl (CantUnmarshal (typ_of v) TargetString))"

definition As_bigfloat :: "tfvalue \<Rightarrow> err + rat" where
  "As_bigfloat v = (case value_of v of Raw (DNumber n) \<Rightarrow> Inr n | _ \<Rightarrow> Inl (CantUnmarshal (typ_of v) TargetBigFloat))"

definition As_bool :: "tfvalue \<Rightarrow> err + bool" where
  "As_bool v = (case value_of v of Raw (DBool b) \<Rightarrow> Inr b | _ \<Rightarrow> Inl (CantUnmarshal (typ_of v) TargetBool))"

definition As_map :: "tfvalue \<Rightarrow> err + (string \<times> tfvalue) list" where
  "As_map v = (case value_of v of Attrs msv \<Rightarrow> Inr msv | _ \<Rightarrow> Inl (CantUnmarshal (typ_of v) TargetValueMap))"

definition As_slice :: "tfvalue \<Rightarrow> err + tfvalue list" where
  "As_slice v = (case value_of v of Values vals \<Rightarrow> Inr vals | _ \<Rightarrow> Inl (CantUnmarshal (typ_of v) TargetValueSlice))"

subsection \<open>Package reflect\<close>

fun TypeOf :: "dyn \<Rightarrow> gotype option" where
  "TypeOf GoNil = None"
| "TypeOf (DString s) = Some GoString"
| "TypeOf (DNumber n) = Some GoBigFloat"
| "TypeOf (DBool b) = Some GoBool"
| "TypeOf (DInt n) = Some GoInt"
| "TypeOf (DSlice t xs) = Some (GoSlice t)"
| "TypeOf (DMap t kvs) = Some (GoMap GoString t)"
| "TypeOf (DIntMap t kvs) = Some (GoMap GoInt t)"

text \<open>\<^verbatim>\<open>reflect.ValueOf(i).Kind()\<close>: \<^verbatim>\<open>Invalid\<close> for the nil interface.\<close>

definition Kind :: "dyn \<Rightarrow> kind" where
  "Kind i = (case TypeOf i of None \<Rightarrow> Invalid | Some t \<Rightarrow> kind_of t)"

text \<open>
  Whether \<^verbatim>\<open>reflect.ValueOf(v)\<close> may be stored in a slot of type \<open>t\<close>: the types are
  identical, or \<open>t\<close> is \<^verbatim>\<open>interface{}\<close>. (The zero \<^verbatim>\<open>reflect.Value\<close> of a nil interface is
  handled before.)
\<close>

definition assignable :: "dyn \<Rightarrow> gotype \<Rightarrow> bool" where
  "assignable v t = (t = GoInterface \<or> TypeOf v = Some t)"

text \<open>
  The loop \<^verbatim>\<open>for _, v := range tmp { res = reflect.Append(res, reflect.ValueOf(v)) }\<close> on a
  slice \<open>res\<close> of element type \<open>t\<close>. \<^verbatim>\<open>reflect.Append\<close> calls \<^verbatim>\<open>Set\<close>, which panics on the zero
  \<^verbatim>\<open>Value\<close> and on a value that is not assignable to \<open>t\<close>.
\<close>

fun Append_loop :: "dyn list \<Rightarrow> gotype \<Rightarrow> dyn list \<Rightarrow> failure + dyn list" where
  "Append_loop [] t res = Inr res"
| "Append_loop (v # tmp) t res =
     (if TypeOf v = None then Inl (Panic ReflectZeroValue)
      else if \<not> assignable v t then Inl (Panic ReflectNotAssignable)
      else Append_loop tmp t (res @ [v]))"

text \<open>
  The loop \<^verbatim>\<open>for k, v := range tmp { res.SetMapIndex(reflect.ValueOf(k), reflect.ValueOf(v)) }\<close>
  on a map \<open>res\<close> of element type \<open>t\<close>. With the zero \<^verbatim>\<open>Value\<close> as element,
  \<^verbatim>\<open>SetMapIndex\<close> deletes the key; otherwise the element must be assignable to \<open>t\<close>.
\<close>

fun SetMapIndex_loop :: "(string \<times> dyn) list \<Rightarrow> gotype \<Rightarrow> (string \<times> dyn) list \<Rightarrow> failure + (string \<times> dyn) list" where
  "SetMapIndex_loop [] t res = Inr res"
| "SetMapIndex_loop ((k, v) # tmp) t res =
     (if TypeOf v = None then SetMapIndex_loop tmp t (AList.delete k res)
      else if \<not> assignable v t then Inl (Panic ReflectNotAssignable)
      else SetMapIndex_loop tmp t (AList.update k v res))"

section \<open>GoPrimitive\<close>

record GoPrimitive =
  Type :: "ttype option"
  Value :: dyn

text \<open>\<^verbatim>\<open>var vgp GoPrimitive\<close>: the zero value.\<close>

definition zero_GoPrimitive :: GoPrimitive where
  "zero_GoPrimitive = \<lparr>Type = None, Value = GoNil\<rparr>"

subsection \<open>FromTerraform5Value\<close>

text \<open>
  Lines 129 to 135: the type of the first decoded element, \<^verbatim>\<open>reflect.SliceOf\<close> (which panics
  on the nil \<^verbatim>\<open>reflect.Type\<close>), \<^verbatim>\<open>reflect.MakeSlice\<close>, the loop of \<^verbatim>\<open>reflect.Append\<close> and
  \<^verbatim>\<open>res.Interface()\<close>. \<^verbatim>\<open>tmp[0]\<close> on an empty slice would panic; the caller has returned
  before when there is no element.
\<close>

definition reflect_slice :: "dyn list \<Rightarrow> failure + dyn" where
  "reflect_slice tmp =
     (case tmp of
        [] \<Rightarrow> Inl (Panic IndexOutOfRange)
      | x # _ \<Rightarrow>
          (case TypeOf x of
             None \<Rightarrow> Inl (Panic ReflectNilType)
           | Some t \<Rightarrow>
               (case Append_loop tmp t [] of
                  Inl f \<Rightarrow> Inl f
                | Inr res \<Rightarrow> Inr (DSlice t res))))"

text \<open>
  Lines 160 to 165: \<^verbatim>\<open>reflect.MapOf\<close> (which panics on the nil \<^verbatim>\<open>reflect.Type\<close>),
  \<^verbatim>\<open>reflect.MakeMapWithSize\<close>, the loop of \<^verbatim>\<open>SetMapIndex\<close> and \<^verbatim>\<open>res.Interface()\<close>.
\<close>

definition reflect_map :: "gotype option \<Rightarrow> (string \<times> dyn) list \<Rightarrow> failure + dyn" where
  "reflect_map typ tmp =
     (case typ of
        None \<Rightarrow> Inl (Panic ReflectNilType)
      | Some t \<Rightarrow>
          (case SetMapIndex_loop tmp t [] of
             Inl f \<Rightarrow> Inl f
           | Inr res \<Rightarrow> Inr (DMap t res)))"

text \<open>
  The end of a branch of the \<^verbatim>\<open>switch\<close>: \<^verbatim>\<open>return err\<close> with the receiver as it is, or
  \<^verbatim>\<open>dt.Value = x; return nil\<close>.
\<close>

definition ret :: "GoPrimitive \<Rightarrow> failure + dyn \<Rightarrow> GoPrimitive \<times> failure option" where
  "ret dt r = (case r of Inl f \<Rightarrow> (dt, Some f) | Inr x \<Rightarrow> (dt\<lparr>Value := x\<rparr>, None))"

text \<open>
  \<^verbatim>\<open>v.As(&vgp)\<close> with a \<^verbatim>\<open>*GoPrimitive\<close> target calls \<^verbatim>\<open>vgp.FromTerraform5Value(v)\<close>
  (the target implements \<^verbatim>\<open>tftypes.ValueConverter\<close>). The method mutates its receiver, so
  the model takes the receiver and returns it updated, together with the error (\<open>None\<close>
  for nil). \<^verbatim>\<open>value.Is(tftypes.Object{})\<close> and its siblings, called with an empty
  prototype, test the kind of the value's type: the \<^verbatim>\<open>switch\<close> is a case distinction on the
  type. \<^verbatim>\<open>res[k] = x\<close> on a map is \<open>AList.update k x res\<close>.

  The three loops over the nested values are \<open>range_msv\<close> (Object), \<open>range_vals\<close> (Tuple,
  List and Set: the same loop body) and \<open>range_msv_typ\<close> (Map, which also records the
  \<^verbatim>\<open>reflect.Type\<close> of the first decoded value that is not nil).
\<close>

lemma As_map_size [termination_simp]:
  "As_map v = Inr msv \<Longrightarrow> size_list (size_prod (\<lambda>_. 0) size) msv < size v"
  by (cases v) (auto simp: As_map_def split: held.splits)

lemma As_slice_size [termination_simp]:
  "As_slice v = Inr vals \<Longrightarrow> size_list size vals < size v"
  by (cases v) (auto simp: As_slice_def split: held.splits)


function FromTerraform5Value :: "GoPrimitive \<Rightarrow> tfvalue \<Rightarrow> GoPrimitive \<times> failure option"
  and range_msv :: "(string \<times> tfvalue) list \<Rightarrow> (string \<times> dyn) list \<Rightarrow> failure + (string \<times> dyn) list"
  and range_vals :: "tfvalue list \<Rightarrow> dyn list \<Rightarrow> failure + dyn list"
  and range_msv_typ :: "(string \<times> tfvalue) list \<Rightarrow> gotype option \<Rightarrow> (string \<times> dyn) list
        \<Rightarrow> failure + gotype option \<times> (string \<times> dyn) list"
where
  "FromTerraform5Value dt value =
     (if \<not> IsKnown value then (dt, Some (Error CannotDecodeUnknown))
      else if IsNull value then (dt\<lparr>Value := GoNil, Type := None\<rparr>, None)
      else let dt = dt\<lparr>Type := Some (typ_of value)\<rparr> in
        (case typ_of value of
           String \<Rightarrow> ret dt (map_sum Error DString (As_string value))
         | Number \<Rightarrow> ret dt (map_sum Error DNumber (As_bigfloat value))
         | Bool \<Rightarrow> ret dt (map_sum Error DBool (As_bool value))
         | Object ats \<Rightarrow>
             (case As_map value of
                Inl e \<Rightarrow> (dt, Some (Error e))
              | Inr msv \<Rightarrow> ret dt (map_sum id (DMap GoInterface) (range_msv msv [])))
         | Tuple ets \<Rightarrow>
             (case As_slice value of
                Inl e \<Rightarrow> (dt, Some (Error e))
              | Inr vals \<Rightarrow> ret dt (map_sum id (DSlice GoInterface) (range_vals vals [])))
         | List et \<Rightarrow>
             (case As_slice value of
                Inl e \<Rightarrow> (dt, Some (Error e))
              | Inr vals \<Rightarrow>
                  if length vals < 1 then (dt\<lparr>Value := DSlice GoInterface []\<rparr>, None)
                  else ret dt (case range_vals vals [] of Inl f \<Rightarrow> Inl f | Inr tmp \<Rightarrow> reflect_slice tmp))
         | Set et \<Rightarrow>
             (case As_slice value of
                Inl e \<Rightarrow> (dt, Some (Error e))
              | Inr vals \<Rightarrow>
                  if length vals < 1 then (dt\<lparr>Value := DSlice GoInterface []\<rparr>, None)
                  else ret dt (case range_vals vals [] of Inl f \<Rightarrow> Inl f | Inr tmp \<Rightarrow> reflect_slice tmp))
         | Map et \<Rightarrow>
             (case As_map value of
                Inl e \<Rightarrow> (dt, Some (Error e))
              | Inr msv \<Rightarrow>
                  if length msv < 1 then (dt\<lparr>Value := DMap GoInterface []\<rparr>, None)
                  else ret dt (case range_msv_typ msv None [] of
                                 Inl f \<Rightarrow> Inl f
                               | Inr (typ, tmp) \<Rightarrow> reflect_map typ tmp))
         | DynamicPseudoType \<Rightarrow> (dt, Some (Error UnknownType))))"
| "range_msv [] res = Inr res"
| "range_msv ((k, v) # msv) res =
     (case FromTerraform5Value zero_GoPrimitive v of
        (vgp, Some f) \<Rightarrow> Inl f
      | (vgp, None) \<Rightarrow> range_msv msv (AList.update k (Value vgp) res))"
| "range_vals [] res = Inr res"
| "range_vals (v # vals) res =
     (case FromTerraform5Value zero_GoPrimitive v of
        (vgp, Some f) \<Rightarrow> Inl f
      | (vgp, None) \<Rightarrow> range_vals vals (res @ [Value vgp]))"
| "range_msv_typ [] typ tmp = Inr (typ, tmp)"
| "range_msv_typ ((k, v) # msv) typ tmp =
     (case FromTerraform5Value zero_GoPrimitive v of
        (vgp, Some f) \<Rightarrow> Inl f
      | (vgp, None) \<Rightarrow>
          range_msv_typ msv (if typ = None then TypeOf (Value vgp) else typ)
            (AList.update k (Value vgp) tmp))"
  by pat_completeness auto
termination
  apply (relation "measure (case_sum
           (case_sum (\<lambda>(dt, v). size v) (\<lambda>(msv, res). size_list (size_prod (\<lambda>_. 0) size) msv))
           (case_sum (\<lambda>(vals, res). size_list size vals)
                     (\<lambda>(msv, t, tmp). size_list (size_prod (\<lambda>_. 0) size) msv)))")
  apply (auto simp: termination_simp)
  done

declare FromTerraform5Value.simps [simp del]

subsection \<open>ToTerraform5Value and marshal\<close>

text \<open>
  \<^verbatim>\<open>p.Is(tftypes.Tuple{})\<close> and its siblings are method calls on the interface value \<open>p\<close>:
  on the nil interface the first of them, \<^verbatim>\<open>p.Is(tftypes.String)\<close>, panics with a nil
  pointer dereference. \<^verbatim>\<open>p.AttributeTypes[k]\<close> is \<open>map_of ats k\<close>: the nil \<^verbatim>\<open>Type\<close> for a key
  that the map does not have.

  \<^verbatim>\<open>marshalObject\<close> and \<^verbatim>\<open>marshalMap\<close> run the same loop over \<^verbatim>\<open>val.MapKeys()\<close>, here
  \<open>range_MapKeys\<close> over the entries of the map, with the element type \<open>t\<close> of the Go map
  (\<^verbatim>\<open>val.MapIndex(e).Kind()\<close> is the kind of that type) and the \<^verbatim>\<open>Type\<close> to encode key \<open>k\<close>
  against. The keys of a \<open>DMap\<close> are of kind \<^verbatim>\<open>String\<close>; on a map with int keys the first
  key reaches the \<^verbatim>\<open>default\<close> branch, and a map without keys skips the loop.
  \<open>range_ElementTypes\<close> is the loop of \<^verbatim>\<open>marshalTuple\<close> over \<^verbatim>\<open>p.ElementTypes\<close>;
  \<^verbatim>\<open>v.Index(i)\<close> panics when \<open>i\<close> is not below \<^verbatim>\<open>v.Len()\<close>. \<open>for_Len\<close> is the loop of
  \<^verbatim>\<open>marshalList\<close> and \<^verbatim>\<open>marshalSet\<close> up to \<^verbatim>\<open>v.Len()\<close>.
\<close>

lemma nth_size_less: "n < length xs \<Longrightarrow> size (xs ! n) < size_list size xs"
proof (induction xs arbitrary: n)
  case Nil
  then show ?case by simp
next
  case (Cons a xs)
  show ?case
  proof (cases n)
    case 0
    then show ?thesis by simp
  next
    case (Suc m)
    with Cons.prems have "m < length xs" by simp
    from Cons.IH [OF this] Suc show ?thesis by simp
  qed
qed

function marshal :: "dyn \<Rightarrow> ttype option \<Rightarrow> failure + tfvalue"
  and marshalObject :: "dyn \<Rightarrow> (string \<times> ttype) list \<Rightarrow> failure + tfvalue"
  and marshalTuple :: "dyn \<Rightarrow> ttype list \<Rightarrow> failure + tfvalue"
  and marshalMap :: "dyn \<Rightarrow> ttype \<Rightarrow> failure + tfvalue"
  and marshalList :: "dyn \<Rightarrow> ttype \<Rightarrow> failure + tfvalue"
  and marshalSet :: "dyn \<Rightarrow> ttype \<Rightarrow> failure + tfvalue"
  and range_MapKeys :: "(string \<times> dyn) list \<Rightarrow> gotype \<Rightarrow> (string \<Rightarrow> ttype option)
        \<Rightarrow> (string \<times> tfvalue) list \<Rightarrow> failure + (string \<times> tfvalue) list"
  and range_ElementTypes :: "dyn list \<Rightarrow> nat \<Rightarrow> ttype list \<Rightarrow> tfvalue list \<Rightarrow> failure + tfvalue list"
  and for_Len :: "dyn list \<Rightarrow> nat \<Rightarrow> ttype \<Rightarrow> tfvalue list \<Rightarrow> failure + tfvalue list"
where
  "marshal i p =
     (case p of
        None \<Rightarrow> Inl (Panic NilPointerDereference)
      | Some String \<Rightarrow> Inr (NewValue String (Raw i))
      | Some Number \<Rightarrow> Inr (NewValue Number (Raw i))
      | Some Bool \<Rightarrow> Inr (NewValue Bool (Raw i))
      | Some (Tuple ets) \<Rightarrow> marshalTuple i ets
      | Some (List et) \<Rightarrow> marshalList i et
      | Some (Set et) \<Rightarrow> marshalSet i et
      | Some (Map et) \<Rightarrow> marshalMap i et
      | Some (Object ats) \<Rightarrow> marshalObject i ats
      | Some DynamicPseudoType \<Rightarrow> Inl (Error (UnableToDetermineType i)))"
| "marshalObject i ats =
     (case i of
        DMap t kvs \<Rightarrow>
          (case range_MapKeys kvs t (map_of ats) [] of
             Inl f \<Rightarrow> Inl f
           | Inr vals \<Rightarrow> Inr (NewValue (Object ats) (Attrs vals)))
      | DIntMap t [] \<Rightarrow> Inr (NewValue (Object ats) (Attrs []))
      | DIntMap t (e # es) \<Rightarrow> Inl (Error (CannotMarshalKind KInt))
      | _ \<Rightarrow> Inl (Error (CannotMarshalKind (Kind i))))"
| "marshalTuple i ets =
     (case i of
        DSlice t xs \<Rightarrow>
          (case range_ElementTypes xs 0 ets [] of
             Inl f \<Rightarrow> Inl f
           | Inr vals \<Rightarrow> Inr (NewValue (Tuple ets) (Values vals)))
      | _ \<Rightarrow> Inl (Error (CannotMarshalKind (Kind i))))"
| "marshalMap i et =
     (case i of
        DMap t kvs \<Rightarrow>
          (case range_MapKeys kvs t (\<lambda>k. Some et) [] of
             Inl f \<Rightarrow> Inl f
           | Inr vals \<Rightarrow> Inr (NewValue (Map et) (Attrs vals)))
      | DIntMap t [] \<Rightarrow> Inr (NewValue (Map et) (Attrs []))
      | DIntMap t (e # es) \<Rightarrow> Inl (Error (CannotMarshalKind KInt))
      | _ \<Rightarrow> Inl (Error (CannotMarshalKind (Kind i))))"
| "marshalList i et =
     (case i of
        DSlice t xs \<Rightarrow>
          (case for_Len xs 0 et [] of
             Inl f \<Rightarrow> Inl f
           | Inr vals \<Rightarrow> Inr (NewValue (List et) (Values vals)))
      | _ \<Rightarrow> Inl (Error (CannotMarshalKind (Kind i))))"
| "marshalSet i et =
     (case i of
        DSlice t xs \<Rightarrow>
          (case for_Len xs 0 et [] of
             Inl f \<Rightarrow> Inl f
           | Inr vals \<Rightarrow> Inr (NewValue (Set et) (Values vals)))
      | _ \<Rightarrow> Inl (Error (CannotMarshalKind (Kind i))))"
| "range_MapKeys [] t p vals = Inr vals"
| "range_MapKeys ((k, x) # kvs) t p vals =
     (case marshal x (p k) of
        Inl (Panic c) \<Rightarrow> Inl (Panic c)
      | Inl (Error e) \<Rightarrow> Inl (Error (CannotMarshalKind (kind_of t)))
      | Inr v \<Rightarrow> range_MapKeys kvs t p (AList.update k v vals))"
| "range_ElementTypes xs n [] vals = Inr vals"
| "range_ElementTypes xs n (elementType # ets) vals =
     (if n < length xs then
        (case marshal (xs ! n) (Some elementType) of
           Inl f \<Rightarrow> Inl f
         | Inr o' \<Rightarrow> range_ElementTypes xs (n + 1) ets (vals @ [o']))
      else Inl (Panic IndexOutOfRange))"
| "for_Len xs n et vals =
     (if n < length xs then
        (case marshal (xs ! n) (Some et) of
           Inl f \<Rightarrow> Inl f
         | Inr o' \<Rightarrow> for_Len xs (n + 1) et (vals @ [o']))
      else Inr vals)"
  by pat_completeness auto
termination
  apply (relation "measures [case_sum
     (case_sum (case_sum (\<lambda>(i, p). 3 * size i + 2) (\<lambda>(i, p). 3 * size i + 1))
               (case_sum (\<lambda>(i, p). 3 * size i + 1) (\<lambda>(i, p). 3 * size i + 1)))
     (case_sum (case_sum (\<lambda>(i, p). 3 * size i + 1) (\<lambda>(i, p). 3 * size i + 1))
               (case_sum (\<lambda>(kvs, t, p, vals). 3 * size_list (size_prod (\<lambda>_. 0) size) kvs)
                  (case_sum (\<lambda>(xs, n, ets, vals). 3 * size_list size xs)
                            (\<lambda>(xs, n, et, vals). 3 * size_list size xs)))),
    case_sum
     (case_sum (case_sum (\<lambda>(i, p). 0) (\<lambda>(i, p). 0))
               (case_sum (\<lambda>(i, p). 0) (\<lambda>(i, p). 0)))
     (case_sum (case_sum (\<lambda>(i, p). 0) (\<lambda>(i, p). 0))
               (case_sum (\<lambda>(kvs, t, p, vals). 0)
                  (case_sum (\<lambda>(xs, n, ets, vals). length ets)
                            (\<lambda>(xs, n, et, vals). length xs - n))))]")
  apply (auto simp: less_Suc_eq_le Suc_le_eq dest: nth_size_less)
  done

declare marshal.simps [simp del] for_Len.simps [simp del]

text \<open>
  \<^verbatim>\<open>ToTerraform5Value\<close> returns the \<^verbatim>\<open>tftypes.Value\<close> of \<^verbatim>\<open>marshal\<close> as an \<^verbatim>\<open>interface{}\<close>.
  On a nil \<^verbatim>\<open>dt.Value\<close> it returns the same error text as the decoder does on an unknown
  value.
\<close>

definition ToTerraform5Value :: "GoPrimitive \<Rightarrow> failure + tfvalue" where
  "ToTerraform5Value dt =
     (if Value dt = GoNil then Inl (Error CannotDecodeUnknown)
      else marshal (Value dt) (Type dt))"

section \<open>The values that survive a round trip\<close>




text \<open>
  The Go type of the decoded form of a value of type \<open>t\<close> that holds neither a null nor an
  empty collection.
\<close>

fun scalar :: "ttype \<Rightarrow> bool" where
  "scalar String = True"
| "scalar Number = True"
| "scalar Bool = True"
| "scalar _ = False"



text \<open>A null value of type String, Number or Bool.\<close>

definition null_scalar :: "tfvalue \<Rightarrow> bool" where
  "null_scalar v = (IsNull v \<and> scalar (typ_of v))"


text \<open>
  \<open>convertible v\<close>: \<open>v\<close> is known and agrees with its type (a scalar holds a Go value of
  its kind; the values of a Tuple, List, Set or Map have the element types of the type; an
  Object holds values for distinct attribute names of its type, each of the attribute's
  type), no List, Set or Map in it is empty, nothing in it is unknown, and the only nulls
  in it are nulls of type String, Number or Bool that sit directly in an attribute of an
  Object or at a position of a Tuple.
\<close>

fun convertible :: "tfvalue \<Rightarrow> bool" where
  "convertible (TfValue t h) =
     (case h of
        Unknown \<Rightarrow> False
      | Raw d \<Rightarrow>
          (case d of
             DString s \<Rightarrow> t = String
           | DNumber n \<Rightarrow> t = Number
           | DBool b \<Rightarrow> t = Bool
           | _ \<Rightarrow> False)
      | Values vs \<Rightarrow>
          (case t of
             Tuple ets \<Rightarrow> map typ_of vs = ets \<and> list_all (\<lambda>v. null_scalar v \<or> convertible v) vs
           | List et \<Rightarrow> vs \<noteq> [] \<and> list_all (\<lambda>v. typ_of v = et \<and> convertible v) vs
           | Set et \<Rightarrow> vs \<noteq> [] \<and> list_all (\<lambda>v. typ_of v = et \<and> convertible v) vs
           | _ \<Rightarrow> False)
      | Attrs kvs \<Rightarrow>
          (case t of
             Object ats \<Rightarrow>
               distinct (map fst kvs) \<and>
               list_all (\<lambda>kv. map_of ats (fst kv) = Some (typ_of (snd kv)) \<and>
                               (null_scalar (snd kv) \<or> convertible (snd kv))) kvs
           | Map et \<Rightarrow>
               kvs \<noteq> [] \<and> distinct (map fst kvs) \<and>
               list_all (\<lambda>kv. typ_of (snd kv) = et \<and> convertible (snd kv)) kvs
           | _ \<Rightarrow> False))"




section \<open>The decoder on each kind of value\<close>








lemma FTV_List:
  "FromTerraform5Value dt (TfValue (List et) (Values vals)) =
     (if vals = [] then (dt\<lparr>Type := Some (List et), Value := DSlice GoInterface []\<rparr>, None)
      else ret (dt\<lparr>Type := Some (List et)\<rparr>)
             (case range_vals vals [] of Inl f \<Rightarrow> Inl f | Inr tmp \<Rightarrow> reflect_slice tmp))"
  by (simp add: FromTerraform5Value.simps IsKnown_def IsNull_def As_slice_def)


lemma FTV_Map:
  "FromTerraform5Value dt (TfValue (Map et) (Attrs msv)) =
     (if msv = [] then (dt\<lparr>Type := Some (Map et), Value := DMap GoInterface []\<rparr>, None)
      else ret (dt\<lparr>Type := Some (Map et)\<rparr>)
             (case range_msv_typ msv None [] of Inl f \<Rightarrow> Inl f | Inr (typ, tmp) \<Rightarrow> reflect_map typ tmp))"
  by (simp add: FromTerraform5Value.simps IsKnown_def IsNull_def As_map_def)







section \<open>The loops of the encoder\<close>

lemma marshal_None: "marshal i None = Inl (Panic NilPointerDereference)"
  by (simp add: marshal.simps)

lemma marshal_String: "marshal i (Some String) = Inr (TfValue String (Raw i))"
  by (simp add: marshal.simps NewValue_def)



lemma marshal_Dynamic: "marshal i (Some DynamicPseudoType) = Inl (Error (UnableToDetermineType i))"
  by (simp add: marshal.simps)



lemma marshal_List: "marshal i (Some (List et)) = marshalList i et"
  by (simp add: marshal.simps)









lemma range_MapKeys_prefix:
  "list_all (\<lambda>kx. \<not> isl (marshal (snd kx) (p (fst kx)))) pre \<Longrightarrow>
   \<exists>vals'. range_MapKeys (pre @ rest) t p vals = range_MapKeys rest t p vals'"
proof (induction pre arbitrary: vals)
  case Nil
  then show ?case by auto
next
  case (Cons kx pre)
  obtain k x where kx: "kx = (k, x)" by (cases kx)
  from Cons.prems kx obtain v where here: "marshal x (p k) = Inr v"
    by (cases "marshal x (p k)") auto
  from Cons.prems have "list_all (\<lambda>kx. \<not> isl (marshal (snd kx) (p (fst kx)))) pre" by simp
  from Cons.IH [OF this, of "AList.update k v vals"] here kx show ?case by simp
qed


section \<open>Decoding and encoding again\<close>










lemma convertible_not_null: "convertible v \<Longrightarrow> \<not> IsNull v"
  by (cases v) (auto simp: IsNull_def)



section \<open>The claims\<close>

subsection \<open>C1: decoding and encoding again\<close>




subsection \<open>C2: nil and null\<close>

text \<open>
  Claim C2, as the code has it. \<^verbatim>\<open>marshal\<close> of nil against String, Number or Bool returns the
  null value of that type; against DynamicPseudoType it returns the error of an
  undetermined type, and against Object, Tuple, List, Set or Map the error
  \<^verbatim>\<open>cannot marshal kind of invalid\<close>. Whenever \<^verbatim>\<open>marshal\<close> of nil returns a value, the value
  carries the type, is null and is known. \<^verbatim>\<open>ToTerraform5Value\<close> on a receiver whose
  \<^verbatim>\<open>Value\<close> is nil returns an error. \<^verbatim>\<open>FromTerraform5Value\<close> on a null value sets \<^verbatim>\<open>Value\<close>
  and \<^verbatim>\<open>Type\<close> of the receiver to nil and returns no error.
\<close>

theorem nil_and_null:
  "marshal GoNil (Some t) =
     (if scalar t then Inr (NewValue t (Raw GoNil))
      else if t = DynamicPseudoType then Inl (Error (UnableToDetermineType GoNil))
      else Inl (Error (CannotMarshalKind Invalid))) \<and>
   (marshal GoNil (Some t) = Inr v \<longrightarrow> typ_of v = t \<and> IsNull v \<and> IsKnown v) \<and>
   (Value gp = GoNil \<longrightarrow> ToTerraform5Value gp = Inl (Error CannotDecodeUnknown)) \<and>
   (IsNull value \<longrightarrow> FromTerraform5Value dt value = (dt\<lparr>Value := GoNil, Type := None\<rparr>, None))"
proof -
  have m: "marshal GoNil (Some t) =
     (if scalar t then Inr (NewValue t (Raw GoNil))
      else if t = DynamicPseudoType then Inl (Error (UnableToDetermineType GoNil))
      else Inl (Error (CannotMarshalKind Invalid)))"
    by (cases t) (simp_all add: marshal.simps Kind_def)
  have "typ_of v = t \<and> IsNull v \<and> IsKnown v" if "marshal GoNil (Some t) = Inr v"
    using that unfolding m by (auto simp: NewValue_def IsNull_def IsKnown_def split: if_splits)
  moreover have "FromTerraform5Value dt value = (dt\<lparr>Value := GoNil, Type := None\<rparr>, None)"
    if "IsNull value"
    using that by (simp add: FromTerraform5Value.simps IsKnown_def IsNull_def)
  ultimately show ?thesis
    using m by (simp add: ToTerraform5Value_def)
qed

theorem nil_and_null_witness:
  "marshal GoNil (Some Bool) = Inr (TfValue Bool (Raw GoNil)) \<and>
   IsNull (TfValue Bool (Raw GoNil)) \<and> IsKnown (TfValue Bool (Raw GoNil)) \<and>
   Value \<lparr>Type = Some Bool, Value = GoNil\<rparr> = GoNil \<and>
   ToTerraform5Value \<lparr>Type = Some Bool, Value = GoNil\<rparr> = Inl (Error CannotDecodeUnknown) \<and>
   IsNull (TfValue (Map Bool) (Raw GoNil)) \<and>
   FromTerraform5Value \<lparr>Type = Some String, Value = DString ''old''\<rparr> (TfValue (Map Bool) (Raw GoNil)) =
     (\<lparr>Type = None, Value = GoNil\<rparr>, None)"
proof -
  have h: "IsNull (TfValue (Map Bool) (Raw GoNil))" by (simp add: IsNull_def)
  from nil_and_null [of Bool "TfValue Bool (Raw GoNil)" "\<lparr>Type = Some Bool, Value = GoNil\<rparr>"
      "TfValue (Map Bool) (Raw GoNil)" "\<lparr>Type = Some String, Value = DString ''old''\<rparr>"] h
  show ?thesis by (simp add: NewValue_def)
qed

text \<open>
  The claim as the specification states it fails: nil against \<^verbatim>\<open>List{String}\<close> is an error
  and not a null List, and the exported \<^verbatim>\<open>ToTerraform5Value\<close> refuses a nil \<^verbatim>\<open>Value\<close> under
  every type.
\<close>

theorem nil_against_list_fails:
  "marshal GoNil (Some (List String)) = Inl (Error (CannotMarshalKind Invalid)) \<and>
   ToTerraform5Value \<lparr>Type = Some String, Value = GoNil\<rparr> = Inl (Error CannotDecodeUnknown)"
  by code_simp

subsection \<open>C3: unknown values\<close>

text \<open>
  Claim C3. On every value that is not known, whatever its type, \<^verbatim>\<open>FromTerraform5Value\<close>
  returns the error \<^verbatim>\<open>cannot decode unknown values to Go types\<close> and leaves the receiver as
  it was: no Go value is produced.
\<close>

theorem unknown_rejected:
  "\<not> IsKnown value \<Longrightarrow> FromTerraform5Value dt value = (dt, Some (Error CannotDecodeUnknown))"
  by (simp add: FromTerraform5Value.simps)

theorem unknown_rejected_witness:
  "\<not> IsKnown (TfValue (Map Bool) Unknown) \<and>
   FromTerraform5Value zero_GoPrimitive (TfValue (Map Bool) Unknown) =
     (zero_GoPrimitive, Some (Error CannotDecodeUnknown))"
proof -
  have h: "\<not> IsKnown (TfValue (Map Bool) Unknown)" by (simp add: IsKnown_def)
  from unknown_rejected [OF h] h show ?thesis by simp
qed

subsection \<open>C4: the element type of a decoded List or Set\<close>




subsection \<open>C5: empty List and empty Map\<close>

text \<open>
  Claim C5. Decoding a known List without elements returns no error and sets \<^verbatim>\<open>Value\<close> to
  the empty \<^verbatim>\<open>[]interface{}\<close>, which is not the nil interface; decoding a known Map without
  entries returns no error and sets \<^verbatim>\<open>Value\<close> to the empty \<^verbatim>\<open>map[string]interface{}\<close>.
\<close>

theorem empty_list_and_map:
  "FromTerraform5Value dt (TfValue (List et) (Values [])) =
     (dt\<lparr>Type := Some (List et), Value := DSlice GoInterface []\<rparr>, None) \<and>
   FromTerraform5Value dt (TfValue (Map et) (Attrs [])) =
     (dt\<lparr>Type := Some (Map et), Value := DMap GoInterface []\<rparr>, None) \<and>
   DSlice GoInterface [] \<noteq> GoNil"
  by (simp add: FTV_List FTV_Map)

theorem empty_list_and_map_witness:
  "FromTerraform5Value zero_GoPrimitive (TfValue (List Number) (Values [])) =
     (\<lparr>Type = Some (List Number), Value = DSlice GoInterface []\<rparr>, None) \<and>
   FromTerraform5Value zero_GoPrimitive (TfValue (Map Number) (Attrs [])) =
     (\<lparr>Type = Some (Map Number), Value = DMap GoInterface []\<rparr>, None)"
  using empty_list_and_map [of zero_GoPrimitive Number] by (simp add: zero_GoPrimitive_def)

subsection \<open>C6: the attributes of an Object\<close>



subsection \<open>C7: the length of a Tuple\<close>

text \<open>
  Claim C7 asks for an error when the slice and the element types of a Tuple differ in
  length. \<^verbatim>\<open>marshalTuple\<close> ranges over the element types and indexes the slice without
  comparing the lengths: a slice of one element against two element types makes
  \<^verbatim>\<open>v.Index(1)\<close> panic, and a slice of two elements against one element type is encoded
  without its second element.
\<close>

theorem tuple_length_unchecked:
  "marshal (DSlice GoInterface [DString ''a'']) (Some (Tuple [String, String])) =
     Inl (Panic IndexOutOfRange) \<and>
   marshal (DSlice GoInterface [DString ''a'', DString ''b'']) (Some (Tuple [String])) =
     Inr (TfValue (Tuple [String]) (Values [TfValue String (Raw (DString ''a''))]))"
  by code_simp

subsection \<open>C8: what is not a map, and failing attributes\<close>

text \<open>
  Claim C8, as the code has it. Against an Object type, a Go value that is not a map fails
  with \<^verbatim>\<open>cannot marshal kind of\<close> the kind of the value; a map with keys that are not strings
  and at least one entry fails with the kind of its keys; and when the entries before an
  entry are encoded and \<^verbatim>\<open>marshal\<close> returns an error for that entry, \<^verbatim>\<open>marshalObject\<close>
  returns \<^verbatim>\<open>cannot marshal kind of\<close> the kind of the element type of the map, whatever the
  error of the entry was.
\<close>

theorem object_shape_errors:
  "(Kind i \<noteq> KMap \<longrightarrow> marshalObject i ats = Inl (Error (CannotMarshalKind (Kind i)))) \<and>
   (ikvs \<noteq> [] \<longrightarrow> marshalObject (DIntMap t ikvs) ats = Inl (Error (CannotMarshalKind KInt))) \<and>
   (list_all (\<lambda>kx. \<not> isl (marshal (snd kx) (map_of ats (fst kx)))) pre \<and>
    marshal x (map_of ats k) = Inl (Error e) \<longrightarrow>
      marshalObject (DMap t (pre @ (k, x) # post)) ats = Inl (Error (CannotMarshalKind (kind_of t))))"
proof (intro conjI impI)
  assume "Kind i \<noteq> KMap"
  then show "marshalObject i ats = Inl (Error (CannotMarshalKind (Kind i)))"
    by (cases i) (simp_all add: Kind_def)
next
  assume "ikvs \<noteq> []"
  then show "marshalObject (DIntMap t ikvs) ats = Inl (Error (CannotMarshalKind KInt))"
    by (cases ikvs) simp_all
next
  assume a: "list_all (\<lambda>kx. \<not> isl (marshal (snd kx) (map_of ats (fst kx)))) pre \<and>
    marshal x (map_of ats k) = Inl (Error e)"
  then obtain vals' where "range_MapKeys (pre @ (k, x) # post) t (map_of ats) [] =
      range_MapKeys ((k, x) # post) t (map_of ats) vals'"
    using range_MapKeys_prefix [of "map_of ats" pre "(k, x) # post" t "[]"] by blast
  with a show "marshalObject (DMap t (pre @ (k, x) # post)) ats = Inl (Error (CannotMarshalKind (kind_of t)))"
    by simp
qed

theorem object_shape_errors_witness:
  "Kind (DString ''x'') \<noteq> KMap \<and>
   marshalObject (DString ''x'') [(''a'', String), (''b'', List String)] =
     Inl (Error (CannotMarshalKind KString)) \<and>
   marshalObject (DIntMap GoString [(1, DString ''x'')]) [(''a'', String), (''b'', List String)] =
     Inl (Error (CannotMarshalKind KInt)) \<and>
   list_all (\<lambda>kx. \<not> isl (marshal (snd kx) (map_of [(''a'', String), (''b'', List String)] (fst kx))))
     [(''a'', DString ''x'')] \<and>
   marshal (DString ''y'') (map_of [(''a'', String), (''b'', List String)] ''b'') =
     Inl (Error (CannotMarshalKind KString)) \<and>
   marshalObject (DMap GoInterface ([(''a'', DString ''x'')] @ (''b'', DString ''y'') # []))
       [(''a'', String), (''b'', List String)] =
     Inl (Error (CannotMarshalKind KInterface))"
proof -
  have h1: "Kind (DString ''x'') \<noteq> KMap" by (simp add: Kind_def)
  have h2: "list_all (\<lambda>kx. \<not> isl (marshal (snd kx) (map_of [(''a'', String), (''b'', List String)] (fst kx))))
     [(''a'', DString ''x'')]"
    by (simp add: marshal_String)
  have h3: "marshal (DString ''y'') (map_of [(''a'', String), (''b'', List String)] ''b'') =
     Inl (Error (CannotMarshalKind KString))"
    by (simp add: marshal_List Kind_def)
  from object_shape_errors [of "DString ''x''" "[(''a'', String), (''b'', List String)]"
      "[(1, DString ''x'')]" GoString "[(''a'', DString ''x'')]" "DString ''y''" "''b''"
      "CannotMarshalKind KString" "[]"] h1 h2 h3
  have a: "marshalObject (DString ''x'') [(''a'', String), (''b'', List String)] =
     Inl (Error (CannotMarshalKind KString))"
    and b: "marshalObject (DIntMap GoString [(1, DString ''x'')]) [(''a'', String), (''b'', List String)] =
     Inl (Error (CannotMarshalKind KInt))"
    by (simp_all add: Kind_def)
  from object_shape_errors [of "DString ''x''" "[(''a'', String), (''b'', List String)]"
      "[(1, DString ''x'')]" GoInterface "[(''a'', DString ''x'')]" "DString ''y''" "''b''"
      "CannotMarshalKind KString" "[]"] h2 h3
  have c: "marshalObject (DMap GoInterface ([(''a'', DString ''x'')] @ (''b'', DString ''y'') # []))
       [(''a'', String), (''b'', List String)] =
     Inl (Error (CannotMarshalKind KInterface))"
    by simp
  from h1 h2 h3 a b c show ?thesis by blast
qed

text \<open>
  The claim as the specification states it fails in two places. The error of the attribute
  is dropped, not wrapped: \<^verbatim>\<open>marshal\<close> of a string against \<^verbatim>\<open>List{String}\<close> reports the kind
  \<^verbatim>\<open>string\<close>, and \<^verbatim>\<open>marshalObject\<close> reports the kind \<^verbatim>\<open>interface\<close> in its place. And a map
  with int keys and no entry is not a map with string keys, but is encoded without error.
\<close>

theorem attribute_error_dropped:
  "marshal (DString ''x'') (Some (List String)) = Inl (Error (CannotMarshalKind KString)) \<and>
   marshalObject (DMap GoInterface [(''a'', DString ''x'')]) [(''a'', List String)] =
     Inl (Error (CannotMarshalKind KInterface)) \<and>
   marshalObject (DIntMap GoString []) [(''a'', String)] =
     Inr (TfValue (Object [(''a'', String)]) (Attrs []))"
  by code_simp

subsection \<open>C9: a type outside the eight kinds\<close>

text \<open>
  Claim C9, as the code has it. Against \<^verbatim>\<open>DynamicPseudoType\<close>, the one type of the library
  that is none of String, Number, Bool, Object, Tuple, List, Set and Map, \<^verbatim>\<open>marshal\<close> returns
  the error \<^verbatim>\<open>unable to determine type\<close> whose argument is the Go value it was asked to
  encode.
\<close>

theorem undetermined_type:
  "marshal i (Some DynamicPseudoType) = Inl (Error (UnableToDetermineType i))"
  by (simp add: marshal.simps)

theorem undetermined_type_witness:
  "marshal (DBool True) (Some DynamicPseudoType) = Inl (Error (UnableToDetermineType (DBool True)))"
  using undetermined_type [of "DBool True"] by simp

text \<open>
  The claim as the specification states it fails: the error carries the Go value
  \<^verbatim>\<open>"x"\<close>, not the kind of the type; and on the nil \<^verbatim>\<open>Type\<close> the first \<^verbatim>\<open>p.Is\<close> panics.
\<close>

theorem undetermined_type_names_value:
  "marshal (DString ''x'') (Some DynamicPseudoType) =
     Inl (Error (UnableToDetermineType (DString ''x''))) \<and>
   marshal (DString ''x'') None = Inl (Panic NilPointerDereference)"
  by code_simp

subsection \<open>C10: null elements of a List, Set or Map\<close>

text \<open>
  Claim C10 asks that decoding never aborts on a collection with null elements. On a List
  or Set whose first element is null, \<^verbatim>\<open>reflect.TypeOf(tmp[0])\<close> is nil and
  \<^verbatim>\<open>reflect.SliceOf\<close> panics; on a null element after the first, \<^verbatim>\<open>reflect.Append\<close> panics
  on the zero \<^verbatim>\<open>Value\<close>; on a Map all of whose values are null, \<^verbatim>\<open>reflect.MapOf\<close> panics.
\<close>

theorem null_element_panics:
  "snd (FromTerraform5Value zero_GoPrimitive
      (TfValue (List String) (Values [TfValue String (Raw GoNil)]))) = Some (Panic ReflectNilType) \<and>
   snd (FromTerraform5Value zero_GoPrimitive
      (TfValue (Set String) (Values [TfValue String (Raw (DString ''a'')), TfValue String (Raw GoNil)]))) =
     Some (Panic ReflectZeroValue) \<and>
   snd (FromTerraform5Value zero_GoPrimitive
      (TfValue (Map String) (Attrs [(''k'', TfValue String (Raw GoNil))]))) = Some (Panic ReflectNilType)"
  by code_simp

end
